theory Spec2Isabelle
  imports Main "HOL-Library.Word"
begin

section \<open>Error model (the error module of package filter)\<close>

text \<open>
  \<^verbatim>\<open>type Error struct { Type ErrorType; Fields []string }\<close> with
  \<^verbatim>\<open>type ErrorType uint\<close>. The kind is kept as a natural number, since any
  unsigned value can be stored in the field, and the ten constants are the
  \<^verbatim>\<open>iota\<close> values of the source.
\<close>

type_synonym ErrorType = nat

record Error =
  Type :: ErrorType
  Fields :: "string list"

definition ErrorObjectNotExist :: ErrorType where "ErrorObjectNotExist = 0"
definition ErrorObjectDuplicated :: ErrorType where "ErrorObjectDuplicated = 1"
definition ErrorNoObjectUpdated :: ErrorType where "ErrorNoObjectUpdated = 2"
definition ErrorNoObjectDeleted :: ErrorType where "ErrorNoObjectDeleted = 3"
definition ErrorMissingParam :: ErrorType where "ErrorMissingParam = 4"
definition ErrorInvalidParam :: ErrorType where "ErrorInvalidParam = 5"
definition ErrorQuotaExceed :: ErrorType where "ErrorQuotaExceed = 6"
definition ErrorPermissionDenied :: ErrorType where "ErrorPermissionDenied = 7"
definition ErrorOperationFailed :: ErrorType where "ErrorOperationFailed = 8"
definition ErrorInternalError :: ErrorType where "ErrorInternalError = 9"

text \<open>
  \<^verbatim>\<open>var appErrorCodes = map[ErrorType]string{...}\<close>, as an association list in
  the order of the source. Reading a Go map at a missing key gives the zero
  value, the empty string; \<open>appErrorCodes_at\<close> is the index expression
  \<^verbatim>\<open>appErrorCodes[t]\<close>.
\<close>

definition appErrorCodes :: "(ErrorType \<times> string) list" where
  "appErrorCodes =
    [(ErrorObjectNotExist, ''ObjectNotExist''),
     (ErrorObjectDuplicated, ''ObjectDuplicated''),
     (ErrorNoObjectUpdated, ''NoObjectUpdated''),
     (ErrorNoObjectDeleted, ''NoObjectDeleted''),
     (ErrorMissingParam, ''MissingParam''),
     (ErrorInvalidParam, ''InvalidParam''),
     (ErrorQuotaExceed, ''QuotaExceed''),
     (ErrorPermissionDenied, ''PermissionDenied''),
     (ErrorOperationFailed, ''OperationFailed''),
     (ErrorInternalError, ''InternalError'')]"

definition appErrorCodes_at :: "ErrorType \<Rightarrow> string" where
  "appErrorCodes_at t = (case map_of appErrorCodes t of None \<Rightarrow> [] | Some s \<Rightarrow> s)"

text \<open>\<^verbatim>\<open>strings.Join(elems, sep)\<close> of the Go standard library.\<close>

fun strings_Join :: "string list \<Rightarrow> string \<Rightarrow> string" where
  "strings_Join [] sep = []"
| "strings_Join [x] sep = x"
| "strings_Join (x # y # ys) sep = x @ sep @ strings_Join (y # ys) sep"

text \<open>\<^verbatim>\<open>func NewError(errorType ErrorType, fields ...string) *Error\<close>.\<close>

definition NewError :: "ErrorType \<Rightarrow> string list \<Rightarrow> Error" where
  "NewError errorType fields' = \<lparr>Type = errorType, Fields = fields'\<rparr>"

text \<open>The error that every failing range validator builds: kind invalid-param, the parameter name, a reason code.\<close>

abbreviation invalid_param :: "string \<Rightarrow> string \<Rightarrow> Error" where
  "invalid_param paramName code \<equiv> NewError ErrorInvalidParam [paramName, code]"

text \<open>
  \<^verbatim>\<open>func (e *Error) Error() string\<close>. The receiver is a pointer and the method
  assigns to \<^verbatim>\<open>e.Fields\<close>, so the model returns the string together with the
  Error as the call leaves it.
\<close>

definition Error_Error :: "Error \<Rightarrow> string \<times> Error" where
  "Error_Error e =
    (let e' = e\<lparr>Fields := appErrorCodes_at (Type e) # Fields e\<rparr>
     in (strings_Join (Fields e') '':'', e'))"

section \<open>Range values and validator closures\<close>

type_synonym int64 = "64 word"
type_synonym uint64 = "64 word"

text \<open>
  \<^verbatim>\<open>math.MinInt64\<close> and \<^verbatim>\<open>math.MaxInt64\<close>. An \<open>int64\<close> is a 64-bit word read
  in two's complement: the signed comparisons of the source are \<open><s\<close> and
  \<open>\<le>s\<close>, its unsigned ones (on \<open>uint64\<close>) are \<open><\<close> and \<open>\<le>\<close>.
\<close>

definition MinInt64 :: int64 where "MinInt64 = - (2 ^ 63)"
definition MaxInt64 :: int64 where "MaxInt64 = 2 ^ 63 - 1"

text \<open>
  \<^verbatim>\<open>types.Int64Range\<close> and \<^verbatim>\<open>types.Uint64Range\<close> of the package
  github.com/go-apibox/types: the four fields the filters read.
\<close>

record 'a Range =
  Left :: 'a
  Right :: 'a
  LeftClosed :: bool
  RightClosed :: bool

type_synonym Int64Range = "int64 Range"
type_synonym Uint64Range = "uint64 Range"

text \<open>
  \<^verbatim>\<open>type Int64RangeValidator func(paramName string, paramValue *types.Int64Range) *Error\<close>.
  A validator is a Go function value. The built-in ones are closures over the
  parameter of the builder method that made them, and they assign to that
  captured variable, which lives as long as the closure. A validator is
  therefore an object with one operation: \<open>call\<close> takes the arguments and
  gives the returned error (\<open>None\<close> is \<^verbatim>\<open>nil\<close>) and the validator as the
  call leaves it. The built-in validators only read the range they are given,
  and every call of a builder method makes a function literal with a captured
  variable of its own, so the validators of a filter do not share state.
\<close>

codatatype 'r Validator =
  Validator (call: "string \<Rightarrow> 'r \<Rightarrow> Error option \<times> 'r Validator")

text \<open>
  \<open>closure body s\<close> is the function literal whose body is \<open>body\<close> and whose
  captured variables hold \<open>s\<close>: \<open>body\<close> maps the captured values and the
  arguments to the result and the captured values after the call.
\<close>

primcorec closure :: "('s \<Rightarrow> string \<Rightarrow> 'r \<Rightarrow> Error option \<times> 's) \<Rightarrow> 's \<Rightarrow> 'r Validator" where
  "closure body s = Validator (\<lambda>paramName paramValue. map_prod id (closure body) (body s paramName paramValue))"

subsection \<open>Boundary validators of Int64RangeFilter\<close>

text \<open>The function literal of \<^verbatim>\<open>Int64RangeFilter.LeftMin(val int64)\<close>.\<close>

definition Int64RangeFilter_LeftMin_func :: "int64 \<Rightarrow> string \<Rightarrow> Int64Range \<Rightarrow> Error option \<times> int64" where
  "Int64RangeFilter_LeftMin_func val paramName paramValue =
    (let val = (if \<not> LeftClosed paramValue
                then (if MinInt64 <s val then val - 1 else val)
                else val)
     in (if Left paramValue <s val
         then Some (NewError ErrorInvalidParam [paramName, ''LeftTooSmall''])
         else None, val))"

text \<open>The function literal of \<^verbatim>\<open>Int64RangeFilter.RightMax(val int64)\<close>.\<close>

definition Int64RangeFilter_RightMax_func :: "int64 \<Rightarrow> string \<Rightarrow> Int64Range \<Rightarrow> Error option \<times> int64" where
  "Int64RangeFilter_RightMax_func val paramName paramValue =
    (let val = (if \<not> RightClosed paramValue
                then (if val <s MaxInt64 then val + 1 else val)
                else val)
     in (if val <s Right paramValue
         then Some (NewError ErrorInvalidParam [paramName, ''RightTooLarge''])
         else None, val))"

subsection \<open>Distance validators\<close>

text \<open>
  The part of \<^verbatim>\<open>math/big\<close> that the int64 distance validators use. A
  \<^verbatim>\<open>*big.Int\<close> is an integer of any size. \<^verbatim>\<open>Uint64()\<close> returns the low 64
  bits of the magnitude (\<^verbatim>\<open>low64(x.abs)\<close> in the library), which is the
  value itself when it lies in the range of \<open>uint64\<close>.
\<close>

definition big_NewInt :: "int64 \<Rightarrow> int" where
  "big_NewInt x = sint x"

definition big_Sub :: "int \<Rightarrow> int \<Rightarrow> int" where
  "big_Sub x y = x - y"

definition big_Uint64 :: "int \<Rightarrow> uint64" where
  "big_Uint64 x = word_of_int \<bar>x\<bar>"

text \<open>
  Lines 269 to 272 of \<^verbatim>\<open>range_int64.go\<close>: the width of the range as a
  \<^verbatim>\<open>*big.Int\<close>.
\<close>

definition Int64Range_dist :: "Int64Range \<Rightarrow> int" where
  "Int64Range_dist paramValue =
    (let left = big_NewInt (Left paramValue);
         right = big_NewInt (Right paramValue)
     in big_Sub right left)"

text \<open>
  The block that the distance validators run once for the left side and once
  for the right side, on a \<^verbatim>\<open>*big.Int\<close>: no change at a closed side, one less
  at an open side, the WrongRange error at an open side when \<^verbatim>\<open>dist.Uint64()\<close>
  is 0.
\<close>

definition big_open_side :: "bool \<Rightarrow> string \<Rightarrow> int \<Rightarrow> Error + int" where
  "big_open_side closed paramName dist =
    (if \<not> closed
     then (if 0 < big_Uint64 dist
           then Inr (big_Sub dist (big_NewInt 1))
           else Inl (NewError ErrorInvalidParam [paramName, ''WrongRange'']))
     else Inr dist)"

text \<open>
  The function literals of \<^verbatim>\<open>Int64RangeFilter.MinDistance(val uint64)\<close> and
  \<^verbatim>\<open>Int64RangeFilter.MaxDistance(val uint64)\<close>. They do not assign to \<open>val\<close>.
\<close>

definition Int64RangeFilter_MinDistance_func :: "uint64 \<Rightarrow> string \<Rightarrow> Int64Range \<Rightarrow> Error option \<times> uint64" where
  "Int64RangeFilter_MinDistance_func val paramName paramValue =
    (case big_open_side (LeftClosed paramValue) paramName (Int64Range_dist paramValue) of
       Inl e \<Rightarrow> (Some e, val)
     | Inr dist \<Rightarrow>
        (case big_open_side (RightClosed paramValue) paramName dist of
           Inl e \<Rightarrow> (Some e, val)
         | Inr dist \<Rightarrow>
            (if big_Uint64 dist < val
             then Some (NewError ErrorInvalidParam [paramName, ''TooNear''])
             else None, val)))"

definition Int64RangeFilter_MaxDistance_func :: "uint64 \<Rightarrow> string \<Rightarrow> Int64Range \<Rightarrow> Error option \<times> uint64" where
  "Int64RangeFilter_MaxDistance_func val paramName paramValue =
    (case big_open_side (LeftClosed paramValue) paramName (Int64Range_dist paramValue) of
       Inl e \<Rightarrow> (Some e, val)
     | Inr dist \<Rightarrow>
        (case big_open_side (RightClosed paramValue) paramName dist of
           Inl e \<Rightarrow> (Some e, val)
         | Inr dist \<Rightarrow>
            (if val < big_Uint64 dist
             then Some (NewError ErrorInvalidParam [paramName, ''TooFar''])
             else None, val)))"

text \<open>
  The same for \<^verbatim>\<open>Uint64RangeFilter\<close> (\<^verbatim>\<open>range_uint64.go\<close>), where the width is
  \<^verbatim>\<open>uint64(paramValue.Right - paramValue.Left)\<close>, a subtraction of 64-bit
  unsigned integers that wraps around.
\<close>

definition Uint64Range_dist :: "Uint64Range \<Rightarrow> uint64" where
  "Uint64Range_dist paramValue = Right paramValue - Left paramValue"

definition uint64_open_side :: "bool \<Rightarrow> string \<Rightarrow> uint64 \<Rightarrow> Error + uint64" where
  "uint64_open_side closed paramName dist =
    (if \<not> closed
     then (if 0 < dist
           then Inr (dist - 1)
           else Inl (NewError ErrorInvalidParam [paramName, ''WrongRange'']))
     else Inr dist)"

definition Uint64RangeFilter_MinDistance_func :: "uint64 \<Rightarrow> string \<Rightarrow> Uint64Range \<Rightarrow> Error option \<times> uint64" where
  "Uint64RangeFilter_MinDistance_func val paramName paramValue =
    (case uint64_open_side (LeftClosed paramValue) paramName (Uint64Range_dist paramValue) of
       Inl e \<Rightarrow> (Some e, val)
     | Inr dist \<Rightarrow>
        (case uint64_open_side (RightClosed paramValue) paramName dist of
           Inl e \<Rightarrow> (Some e, val)
         | Inr dist \<Rightarrow>
            (if dist < val
             then Some (NewError ErrorInvalidParam [paramName, ''TooNear''])
             else None, val)))"

definition Uint64RangeFilter_MaxDistance_func :: "uint64 \<Rightarrow> string \<Rightarrow> Uint64Range \<Rightarrow> Error option \<times> uint64" where
  "Uint64RangeFilter_MaxDistance_func val paramName paramValue =
    (case uint64_open_side (LeftClosed paramValue) paramName (Uint64Range_dist paramValue) of
       Inl e \<Rightarrow> (Some e, val)
     | Inr dist \<Rightarrow>
        (case uint64_open_side (RightClosed paramValue) paramName dist of
           Inl e \<Rightarrow> (Some e, val)
         | Inr dist \<Rightarrow>
            (if val < dist
             then Some (NewError ErrorInvalidParam [paramName, ''TooFar''])
             else None, val)))"

section \<open>The filter and its builder\<close>

text \<open>
  \<^verbatim>\<open>type Int64RangeFilter struct\<close>. The builder methods change the filter they
  are called on and return it; here they map a filter to the changed one.
\<close>

record 'a RangeFilter =
  defaultLeftVal :: 'a
  defaultRightVal :: 'a
  validators :: "'a Range Validator list"
  allowVals :: "string list"

type_synonym Int64RangeFilter = "int64 RangeFilter"
type_synonym Uint64RangeFilter = "uint64 RangeFilter"

definition Int64Range :: Int64RangeFilter where
  "Int64Range = \<lparr>defaultLeftVal = MinInt64, defaultRightVal = MaxInt64, validators = [], allowVals = []\<rparr>"

definition Allow :: "string list \<Rightarrow> 'a RangeFilter \<Rightarrow> 'a RangeFilter" where
  "Allow vals f = f\<lparr>allowVals := allowVals f @ vals\<rparr>"

definition LeftDefault :: "'a \<Rightarrow> 'a RangeFilter \<Rightarrow> 'a RangeFilter" where
  "LeftDefault val f = f\<lparr>defaultLeftVal := val\<rparr>"

definition RightDefault :: "'a \<Rightarrow> 'a RangeFilter \<Rightarrow> 'a RangeFilter" where
  "RightDefault val f = f\<lparr>defaultRightVal := val\<rparr>"

definition AddValidator :: "'a Range Validator \<Rightarrow> 'a RangeFilter \<Rightarrow> 'a RangeFilter" where
  "AddValidator validator f = f\<lparr>validators := validators f @ [validator]\<rparr>"

definition Int64RangeFilter_LeftMin :: "int64 \<Rightarrow> Int64RangeFilter \<Rightarrow> Int64RangeFilter" where
  "Int64RangeFilter_LeftMin val f = AddValidator (closure Int64RangeFilter_LeftMin_func val) f"

definition Int64RangeFilter_RightMax :: "int64 \<Rightarrow> Int64RangeFilter \<Rightarrow> Int64RangeFilter" where
  "Int64RangeFilter_RightMax val f = AddValidator (closure Int64RangeFilter_RightMax_func val) f"

definition Int64RangeFilter_MinDistance :: "uint64 \<Rightarrow> Int64RangeFilter \<Rightarrow> Int64RangeFilter" where
  "Int64RangeFilter_MinDistance val f = AddValidator (closure Int64RangeFilter_MinDistance_func val) f"

definition Int64RangeFilter_MaxDistance :: "uint64 \<Rightarrow> Int64RangeFilter \<Rightarrow> Int64RangeFilter" where
  "Int64RangeFilter_MaxDistance val f = AddValidator (closure Int64RangeFilter_MaxDistance_func val) f"

definition Uint64RangeFilter_MinDistance :: "uint64 \<Rightarrow> Uint64RangeFilter \<Rightarrow> Uint64RangeFilter" where
  "Uint64RangeFilter_MinDistance val f = AddValidator (closure Uint64RangeFilter_MinDistance_func val) f"

definition Uint64RangeFilter_MaxDistance :: "uint64 \<Rightarrow> Uint64RangeFilter \<Rightarrow> Uint64RangeFilter" where
  "Uint64RangeFilter_MaxDistance val f = AddValidator (closure Uint64RangeFilter_MaxDistance_func val) f"

section \<open>Run\<close>

text \<open>
  The dynamic type of the \<^verbatim>\<open>interface{}\<close> argument of \<^verbatim>\<open>Run\<close>, by the cases
  of its type switch: the nil interface, a string, a pointer to a range (not
  a nil pointer), a range, anything else. The first result of \<^verbatim>\<open>Run\<close> is
  nil, a string or the pointer to the range.
\<close>

datatype 'r ParamValue = PNil | PString string | PRangePtr 'r | PRange 'r | POther

datatype 'r RunValue = VNil | VString string | VRange 'r

text \<open>\<^verbatim>\<open>strings.Trim(s, cutset)\<close> of the Go standard library, for a cutset of ASCII bytes.\<close>

definition strings_Trim :: "string \<Rightarrow> string \<Rightarrow> string" where
  "strings_Trim s cutset =
    rev (dropWhile (\<lambda>c. c \<in> set cutset) (rev (dropWhile (\<lambda>c. c \<in> set cutset) s)))"

text \<open>The cutset \<^verbatim>\<open>" \t\r\n"\<close>.\<close>

definition whitespace :: string where
  "whitespace = [CHR '' '', CHR 0x09, CHR 0x0D, CHR 0x0A]"

text \<open>
  The loop over \<^verbatim>\<open>f.allowVals\<close> in \<^verbatim>\<open>Run\<close>: whether some allowed value
  equals \<open>val\<close>.
\<close>

fun allowed :: "string list \<Rightarrow> string \<Rightarrow> bool" where
  "allowed [] val = False"
| "allowed (allowVal # rest) val = (if allowVal = val then True else allowed rest val)"

text \<open>
  The loop over \<^verbatim>\<open>f.validators\<close> in \<^verbatim>\<open>Run\<close>. It stops at the first error;
  the validators that were called are left as their calls left them.
\<close>

fun run_validators :: "'r Validator list \<Rightarrow> string \<Rightarrow> 'r \<Rightarrow> Error option \<times> 'r Validator list" where
  "run_validators [] paramName r = (None, [])"
| "run_validators (validator # rest) paramName r =
    (case call validator paramName r of
       (Some err, validator') \<Rightarrow> (Some err, validator' # rest)
     | (None, validator') \<Rightarrow>
         (case run_validators rest paramName r of
            (res, rest') \<Rightarrow> (res, validator' # rest')))"

text \<open>The part of \<^verbatim>\<open>Run\<close> after the type switch, for the range \<open>r\<close>.\<close>

definition validate :: "'a RangeFilter \<Rightarrow> string \<Rightarrow> 'a Range \<Rightarrow> ('a Range RunValue \<times> Error option) \<times> 'a RangeFilter" where
  "validate f paramName r =
    (case run_validators (validators f) paramName r of
       (Some err, vs) \<Rightarrow> ((VNil, Some err), f\<lparr>validators := vs\<rparr>)
     | (None, vs) \<Rightarrow> ((VRange r, None), f\<lparr>validators := vs\<rparr>))"

text \<open>
  \<^verbatim>\<open>func (f *Int64RangeFilter) Run(paramName string, paramValue interface{}) (interface{}, *Error)\<close>.
  \<^verbatim>\<open>types.ParseInt64Range\<close> belongs to the package github.com/go-apibox/types
  and is a parameter: it gives \<open>None\<close> where the Go function returns an
  error. The result is the pair that \<^verbatim>\<open>Run\<close> returns and the filter after
  the call.
\<close>

definition Int64RangeFilter_Run ::
  "(string \<Rightarrow> int64 \<Rightarrow> int64 \<Rightarrow> Int64Range option) \<Rightarrow> Int64RangeFilter \<Rightarrow> string \<Rightarrow> Int64Range ParamValue
    \<Rightarrow> (Int64Range RunValue \<times> Error option) \<times> Int64RangeFilter" where
  "Int64RangeFilter_Run ParseInt64Range f paramName paramValue =
    (case paramValue of
       PNil \<Rightarrow> ((VNil, None), f)
     | PString s \<Rightarrow>
         (let val = strings_Trim s whitespace
          in if allowed (allowVals f) val then ((VString val, None), f)
             else (case ParseInt64Range val (defaultLeftVal f) (defaultRightVal f) of
                     None \<Rightarrow> ((VNil, Some (NewError ErrorInvalidParam [paramName, ''NotInt64Range''])), f)
                   | Some r \<Rightarrow> validate f paramName r))
     | PRangePtr r \<Rightarrow> validate f paramName r
     | PRange r \<Rightarrow> validate f paramName r
     | POther \<Rightarrow> ((VNil, Some (NewError ErrorInvalidParam [paramName, ''NotInt64Range''])), f))"

section \<open>The distance check in the words of the specification\<close>


section \<open>Error stringification\<close>

lemma Fields_after_Error: "Fields (snd (Error_Error e)) = appErrorCodes_at (Type e) # Fields e"
  by (simp add: Error_Error_def Let_def)

text \<open>
  C10. Stringifying an Error is not idempotent. Each call of \<^verbatim>\<open>Error()\<close> puts
  the label of the kind in front of the stored \<open>Fields\<close> and joins them with a
  colon, so the second call on the same Error returns the label, a colon and
  the first call's string, which differs from the first string; \<open>Fields\<close> is
  one element longer after each call. For
  \<^verbatim>\<open>NewError(ErrorInvalidParam, "name", "reason")\<close> the first call gives
  \<^verbatim>\<open>InvalidParam:name:reason\<close> and the second
  \<^verbatim>\<open>InvalidParam:InvalidParam:name:reason\<close>.
\<close>

theorem Error_not_idempotent:
  "fst (Error_Error (snd (Error_Error e))) = appErrorCodes_at (Type e) @ '':'' @ fst (Error_Error e)
   \<and> fst (Error_Error (snd (Error_Error e))) \<noteq> fst (Error_Error e)
   \<and> Fields (snd (Error_Error e)) = appErrorCodes_at (Type e) # Fields e
   \<and> length (Fields (((snd \<circ> Error_Error) ^^ n) e)) = length (Fields e) + n
   \<and> fst (Error_Error (NewError ErrorInvalidParam [''name'', ''reason''])) = ''InvalidParam:name:reason''
   \<and> fst (Error_Error (snd (Error_Error (NewError ErrorInvalidParam [''name'', ''reason''])))) =
       ''InvalidParam:InvalidParam:name:reason''"
proof -
  let ?l = "appErrorCodes_at (Type e)"
  let ?e0 = "NewError ErrorInvalidParam [''name'', ''reason'']"
  have twice: "fst (Error_Error (snd (Error_Error e))) = ?l @ '':'' @ fst (Error_Error e)"
    by (simp add: Error_Error_def Let_def)
  have differs: "fst (Error_Error (snd (Error_Error e))) \<noteq> fst (Error_Error e)"
  proof
    assume "fst (Error_Error (snd (Error_Error e))) = fst (Error_Error e)"
    with twice have "length (?l @ '':'' @ fst (Error_Error e)) = length (fst (Error_Error e))"
      by simp
    then show False by simp
  qed
  have grows: "length (Fields (((snd \<circ> Error_Error) ^^ n) e)) = length (Fields e) + n"
    by (induction n) (simp_all add: Fields_after_Error)
  have label: "appErrorCodes_at ErrorInvalidParam = ''InvalidParam''"
    by (simp add: appErrorCodes_at_def appErrorCodes_def
        ErrorObjectNotExist_def ErrorObjectDuplicated_def ErrorNoObjectUpdated_def
        ErrorNoObjectDeleted_def ErrorMissingParam_def ErrorInvalidParam_def)
  have once0: "fst (Error_Error ?e0) = ''InvalidParam:name:reason''"
    by (simp add: Error_Error_def Let_def NewError_def label)
  have twice0: "fst (Error_Error (snd (Error_Error ?e0))) = ''InvalidParam:InvalidParam:name:reason''"
    by (simp add: Error_Error_def Let_def NewError_def label)
  from twice differs grows once0 twice0 show ?thesis
    by (simp add: Fields_after_Error)
qed

section \<open>Run: nil and the allow-list\<close>

lemma allowed_iff: "allowed vals val \<longleftrightarrow> val \<in> set vals"
  by (induction vals) auto

text \<open>
  C9. For every filter, whatever its allow-list, defaults and validators, and
  every parameter name, \<^verbatim>\<open>Run(name, nil)\<close> returns \<^verbatim>\<open>(nil, nil)\<close>; the filter
  is left as it was.
\<close>

theorem Run_nil:
  "Int64RangeFilter_Run ParseInt64Range f paramName PNil = ((VNil, None), f)"
  by (simp add: Int64RangeFilter_Run_def)

text \<open>
  C7. When the input is a string that, trimmed of surrounding whitespace,
  equals one of the allowed strings, \<^verbatim>\<open>Run\<close> returns the trimmed string and
  a nil error. This holds for every parser, so the result does not depend on
  whether the string parses, and the filter comes back unchanged, so no
  validator was called.
\<close>

theorem Run_allowed:
  "strings_Trim s whitespace \<in> set (allowVals f) \<Longrightarrow>
   Int64RangeFilter_Run ParseInt64Range f paramName (PString s) =
     ((VString (strings_Trim s whitespace), None), f)"
  by (simp add: Int64RangeFilter_Run_def Let_def allowed_iff)

text \<open>
  The input \<^verbatim>\<open>" any\n"\<close> with \<^verbatim>\<open>Allow("any")\<close>, a \<^verbatim>\<open>MinDistance(3)\<close>
  validator and a parser that rejects every string.
\<close>

theorem Run_allowed_witness:
  "strings_Trim [CHR '' '', CHR ''a'', CHR ''n'', CHR ''y'', CHR 0x0A] whitespace
     \<in> set (allowVals (Int64RangeFilter_MinDistance 3 (Allow [''any''] Int64Range)))
   \<and> Int64RangeFilter_Run (\<lambda>s l r. None) (Int64RangeFilter_MinDistance 3 (Allow [''any''] Int64Range))
        ''x'' (PString [CHR '' '', CHR ''a'', CHR ''n'', CHR ''y'', CHR 0x0A])
      = ((VString ''any'', None), Int64RangeFilter_MinDistance 3 (Allow [''any''] Int64Range))"
proof -
  have t: "strings_Trim [CHR '' '', CHR ''a'', CHR ''n'', CHR ''y'', CHR 0x0A] whitespace = ''any''"
    by (simp add: strings_Trim_def whitespace_def)
  have h: "strings_Trim [CHR '' '', CHR ''a'', CHR ''n'', CHR ''y'', CHR 0x0A] whitespace
      \<in> set (allowVals (Int64RangeFilter_MinDistance 3 (Allow [''any''] Int64Range)))"
    by (simp add: t Int64RangeFilter_MinDistance_def AddValidator_def Allow_def Int64Range_def)
  show ?thesis
    using h Run_allowed [OF h, of "\<lambda>s l r. None" "''x''"] by (simp add: t)
qed

section \<open>Boundary validators\<close>

lemma sint_MinInt64: "sint MinInt64 = - (2 ^ 63)"
  by (simp add: MinInt64_def)

lemma sint_MaxInt64: "sint MaxInt64 = 2 ^ 63 - 1"
  by (simp add: MaxInt64_def)

lemma sint_int64_bounds: "- (2 ^ 63) \<le> sint (x :: int64) \<and> sint x < 2 ^ 63"
  using sint_ge [of x] sint_lt [of x] by simp

lemma MinInt64_sless: "sint MinInt64 < sint v \<longleftrightarrow> v \<noteq> MinInt64"
proof -
  have "v = MinInt64 \<longleftrightarrow> sint v = sint MinInt64"
    using signed_word_eqI [of v MinInt64] by blast
  then show ?thesis
    using sint_int64_bounds [of v] by (auto simp add: sint_MinInt64)
qed

lemma sint_dec: "(v :: int64) \<noteq> MinInt64 \<Longrightarrow> sint (v - 1) = sint v - 1"
proof -
  assume "v \<noteq> MinInt64"
  then have "- (2 ^ 63) < sint v"
    using MinInt64_sless [of v] by (simp add: sint_MinInt64)
  moreover have "sint v < 2 ^ 63"
    using sint_int64_bounds [of v] by simp
  ultimately show ?thesis
    by (simp add: sint_word_ariths signed_take_bit_int_eq_self)
qed

text \<open>
  One call of the \<^verbatim>\<open>LeftMin\<close> function literal whose captured variable holds
  \<open>v\<close>: at an open left side the threshold is \<open>v - 1\<close>, computed without
  wrap-around and left alone at \<^verbatim>\<open>math.MinInt64\<close>; the error is returned
  exactly when \<open>Left\<close> is below the threshold; and the threshold is what the
  captured variable holds after the call.
\<close>

lemma LeftMin_func_call:
  "Int64RangeFilter_LeftMin_func v paramName r =
    (if sint (Left r) < sint v - (if \<not> LeftClosed r \<and> v \<noteq> MinInt64 then 1 else 0)
     then Some (invalid_param paramName ''LeftTooSmall'') else None,
     if \<not> LeftClosed r \<and> v \<noteq> MinInt64 then v - 1 else v)"
  by (simp add: Int64RangeFilter_LeftMin_func_def Let_def word_sless_alt MinInt64_sless sint_dec)

text \<open>
  C1. \<^verbatim>\<open>LeftMin(v)\<close> is to fail a left-closed range with \<open>Left = v - 1\<close>. The
  filter \<^verbatim>\<open>Int64Range().LeftMin(5)\<close> does so when it is new: \<open>[4,10]\<close> gets
  LeftTooSmall. Running it on the left-open range \<open>(4,10]\<close> passes, as it
  should, but the function literal has assigned the decremented threshold to
  the variable it captured, and the filter that comes back is the one
  \<^verbatim>\<open>LeftMin(4)\<close> builds. Run on \<open>[4,10]\<close> after that, the filter accepts
  the range.
\<close>

theorem LeftMin_threshold_drifts:
  "Int64RangeFilter_Run ParseInt64Range (Int64RangeFilter_LeftMin 5 Int64Range) ''x''
      (PRange \<lparr>Left = 4, Right = 10, LeftClosed = True, RightClosed = True\<rparr>)
    = ((VNil, Some (invalid_param ''x'' ''LeftTooSmall'')), Int64RangeFilter_LeftMin 5 Int64Range)
  \<and> Int64RangeFilter_Run ParseInt64Range (Int64RangeFilter_LeftMin 5 Int64Range) ''x''
      (PRange \<lparr>Left = 4, Right = 10, LeftClosed = False, RightClosed = True\<rparr>)
    = ((VRange \<lparr>Left = 4, Right = 10, LeftClosed = False, RightClosed = True\<rparr>, None),
       Int64RangeFilter_LeftMin 4 Int64Range)
  \<and> Int64RangeFilter_Run ParseInt64Range (Int64RangeFilter_LeftMin 4 Int64Range) ''x''
      (PRange \<lparr>Left = 4, Right = 10, LeftClosed = True, RightClosed = True\<rparr>)
    = ((VRange \<lparr>Left = 4, Right = 10, LeftClosed = True, RightClosed = True\<rparr>, None),
       Int64RangeFilter_LeftMin 4 Int64Range)"
  by (simp add: Int64RangeFilter_Run_def validate_def Int64RangeFilter_LeftMin_def AddValidator_def
      Int64Range_def Int64RangeFilter_LeftMin_func_def Let_def word_sless_alt MinInt64_def)

text \<open>
  C5. \<^verbatim>\<open>RightMax(MaxInt64)\<close> passes every range, open or closed on the right,
  whatever its endpoints: the function literal returns nil and leaves its
  captured threshold at \<^verbatim>\<open>math.MaxInt64\<close> (no increment, so no overflow), the
  validator after the call is the validator before it, and \<^verbatim>\<open>Run\<close> on a
  filter with this validator returns the range and the same filter.
\<close>

theorem RightMax_MaxInt64_passes:
  "Int64RangeFilter_RightMax_func MaxInt64 paramName r = (None, MaxInt64)
   \<and> call (closure Int64RangeFilter_RightMax_func MaxInt64) paramName r =
       (None, closure Int64RangeFilter_RightMax_func MaxInt64)
   \<and> Int64RangeFilter_Run ParseInt64Range (Int64RangeFilter_RightMax MaxInt64 Int64Range) paramName (PRange r) =
       ((VRange r, None), Int64RangeFilter_RightMax MaxInt64 Int64Range)"
proof -
  have body: "Int64RangeFilter_RightMax_func MaxInt64 paramName r = (None, MaxInt64)"
    using sint_int64_bounds [of "Right r"]
    by (simp add: Int64RangeFilter_RightMax_func_def Let_def word_sless_alt sint_MaxInt64)
  have once: "call (closure Int64RangeFilter_RightMax_func MaxInt64) paramName r =
      (None, closure Int64RangeFilter_RightMax_func MaxInt64)"
    by (simp add: body)
  have run: "Int64RangeFilter_Run ParseInt64Range (Int64RangeFilter_RightMax MaxInt64 Int64Range) paramName (PRange r) =
      ((VRange r, None), Int64RangeFilter_RightMax MaxInt64 Int64Range)"
    by (simp add: Int64RangeFilter_Run_def validate_def Int64RangeFilter_RightMax_def AddValidator_def
        Int64Range_def body)
  from body once run show ?thesis by simp
qed

section \<open>Distance validators: the width\<close>

lemma big_Uint64_exact: "0 \<le> x \<Longrightarrow> x < 2 ^ 64 \<Longrightarrow> uint (big_Uint64 x) = x"
  by (simp add: big_Uint64_def uint_word_of_int_eq take_bit_int_eq_self)


lemma big_open_side_eq:
  "big_open_side closed paramName dist =
    (if \<not> closed
     then (if 0 < big_Uint64 dist then Inr (dist - 1) else Inl (invalid_param paramName ''WrongRange''))
     else Inr dist)"
  by (simp add: big_open_side_def big_Sub_def big_NewInt_def)

lemma Int64Range_dist_eq: "Int64Range_dist r = sint (Right r) - sint (Left r)"
  by (simp add: Int64Range_dist_def big_NewInt_def big_Sub_def Let_def)

lemma dist_bounds:
  "sint (Left r) \<le> sint (Right r) \<Longrightarrow> 0 \<le> Int64Range_dist r \<and> Int64Range_dist r < 2 ^ 64"
  using sint_int64_bounds [of "Left r"] sint_int64_bounds [of "Right r"]
  by (simp add: Int64Range_dist_eq)

text \<open>
  C2. The int64 distance validators compute the width as the exact integer
  \<open>Right - Left\<close>. For a range with \<open>Left \<le> Right\<close> the 64-bit value that
  they compare is that same number, so on a range closed on both sides
  \<^verbatim>\<open>MinDistance(val)\<close> passes exactly when \<open>val \<le> Right - Left\<close> and
  \<^verbatim>\<open>MaxDistance(val)\<close> exactly when \<open>Right - Left \<le> val\<close>, in the integers.
  For the range from \<^verbatim>\<open>math.MinInt64\<close> to \<^verbatim>\<open>math.MaxInt64\<close> the width is
  \<open>2^64 - 1\<close>.
\<close>

theorem Int64_distance_exact:
  "Int64Range_dist r = sint (Right r) - sint (Left r)
   \<and> (sint (Left r) \<le> sint (Right r) \<longrightarrow>
        uint (big_Uint64 (Int64Range_dist r)) = sint (Right r) - sint (Left r)
      \<and> (LeftClosed r \<and> RightClosed r \<longrightarrow>
           (fst (Int64RangeFilter_MinDistance_func val paramName r) = None
              \<longleftrightarrow> uint val \<le> sint (Right r) - sint (Left r))
         \<and> (fst (Int64RangeFilter_MaxDistance_func val paramName r) = None
              \<longleftrightarrow> sint (Right r) - sint (Left r) \<le> uint val)))
   \<and> Int64Range_dist \<lparr>Left = MinInt64, Right = MaxInt64, LeftClosed = lc, RightClosed = rc\<rparr> = 2 ^ 64 - 1
   \<and> uint (big_Uint64 (Int64Range_dist \<lparr>Left = MinInt64, Right = MaxInt64, LeftClosed = lc, RightClosed = rc\<rparr>))
        = 2 ^ 64 - 1"
proof -
  have ex: "uint (big_Uint64 (Int64Range_dist r)) = sint (Right r) - sint (Left r)"
    if "sint (Left r) \<le> sint (Right r)"
    using dist_bounds [OF that] by (simp add: big_Uint64_exact) (simp add: Int64Range_dist_eq)
  have mn: "fst (Int64RangeFilter_MinDistance_func val paramName r) = None
      \<longleftrightarrow> uint val \<le> sint (Right r) - sint (Left r)"
    if "sint (Left r) \<le> sint (Right r)" "LeftClosed r" "RightClosed r"
    using ex [OF that(1)] that(2,3)
    by (simp add: Int64RangeFilter_MinDistance_func_def big_open_side_eq word_less_def)
  have mx: "fst (Int64RangeFilter_MaxDistance_func val paramName r) = None
      \<longleftrightarrow> sint (Right r) - sint (Left r) \<le> uint val"
    if "sint (Left r) \<le> sint (Right r)" "LeftClosed r" "RightClosed r"
    using ex [OF that(1)] that(2,3)
    by (simp add: Int64RangeFilter_MaxDistance_func_def big_open_side_eq word_less_def)
  have full: "Int64Range_dist \<lparr>Left = MinInt64, Right = MaxInt64, LeftClosed = lc, RightClosed = rc\<rparr> = 2 ^ 64 - 1"
    by (simp add: Int64Range_dist_eq sint_MinInt64 sint_MaxInt64)
  have full64: "uint (big_Uint64 (Int64Range_dist \<lparr>Left = MinInt64, Right = MaxInt64, LeftClosed = lc, RightClosed = rc\<rparr>))
      = 2 ^ 64 - 1"
    by (simp add: full big_Uint64_exact)
  from ex mn mx full full64 show ?thesis
    by (simp add: Int64Range_dist_eq)
qed

text \<open>The closed range from \<^verbatim>\<open>math.MinInt64\<close> to \<^verbatim>\<open>math.MaxInt64\<close> against the distance \<open>2^64 - 1\<close>.\<close>

theorem Int64_distance_exact_witness:
  "sint MinInt64 \<le> sint MaxInt64
   \<and> uint (big_Uint64 (Int64Range_dist \<lparr>Left = MinInt64, Right = MaxInt64, LeftClosed = True, RightClosed = True\<rparr>))
       = 2 ^ 64 - 1
   \<and> fst (Int64RangeFilter_MinDistance_func 18446744073709551615 ''x''
        \<lparr>Left = MinInt64, Right = MaxInt64, LeftClosed = True, RightClosed = True\<rparr>) = None
   \<and> fst (Int64RangeFilter_MaxDistance_func 18446744073709551615 ''x''
        \<lparr>Left = MinInt64, Right = MaxInt64, LeftClosed = True, RightClosed = True\<rparr>) = None"
  using Int64_distance_exact [of "\<lparr>Left = MinInt64, Right = MaxInt64, LeftClosed = True, RightClosed = True\<rparr>"
      "18446744073709551615" "''x''" True True]
  by (simp add: sint_MinInt64 sint_MaxInt64 big_Uint64_exact)



section \<open>Distance validators: the order of the adjustments\<close>




















section \<open>Distance validators on a range with Left above Right\<close>







section \<open>Run: the validator chain\<close>

lemma run_validators_length: "length (snd (run_validators vs n r)) = length vs"
  by (induction vs) (auto split: prod.splits option.splits)

lemma run_validators_None:
  "fst (run_validators vs n r) = None \<longleftrightarrow> (\<forall>v \<in> set vs. fst (call v n r) = None)"
  by (induction vs) (auto split: prod.splits option.splits)

lemma run_validators_Some:
  "fst (run_validators vs n r) = Some e \<Longrightarrow>
    \<exists>i < length vs. fst (call (vs ! i) n r) = Some e
      \<and> (\<forall>j < i. fst (call (vs ! j) n r) = None)
      \<and> (\<forall>k. i < k \<longrightarrow> k < length vs \<longrightarrow> snd (run_validators vs n r) ! k = vs ! k)"
proof (induction vs)
  case Nil
  then show ?case by simp
next
  case (Cons v vs)
  show ?case
  proof (cases "fst (call v n r)")
    case None
    with Cons.prems have "fst (run_validators vs n r) = Some e"
      by (auto split: prod.splits option.splits)
    from Cons.IH [OF this] obtain i where i: "i < length vs" "fst (call (vs ! i) n r) = Some e"
      "\<forall>j < i. fst (call (vs ! j) n r) = None"
      "\<forall>k. i < k \<longrightarrow> k < length vs \<longrightarrow> snd (run_validators vs n r) ! k = vs ! k"
      by blast
    have tail: "snd (run_validators (v # vs) n r) = snd (call v n r) # snd (run_validators vs n r)"
      using None by (auto split: prod.splits option.splits)
    have "Suc i < length (v # vs)" using i(1) by simp
    moreover have "fst (call ((v # vs) ! Suc i) n r) = Some e" using i(2) by simp
    moreover have "\<forall>j < Suc i. fst (call ((v # vs) ! j) n r) = None"
      using i(3) None by (auto simp add: less_Suc_eq_0_disj)
    moreover have "\<forall>k. Suc i < k \<longrightarrow> k < length (v # vs) \<longrightarrow> snd (run_validators (v # vs) n r) ! k = (v # vs) ! k"
    proof (intro allI impI)
      fix k assume k: "Suc i < k" "k < length (v # vs)"
      then obtain k' where k': "k = Suc k'" by (cases k) auto
      with k have "i < k'" "k' < length vs" by auto
      with i(4) have "snd (run_validators vs n r) ! k' = vs ! k'" by blast
      then show "snd (run_validators (v # vs) n r) ! k = (v # vs) ! k"
        by (simp only: tail k' nth_Cons_Suc)
    qed
    ultimately show ?thesis by blast
  next
    case (Some e')
    with Cons.prems have e: "e' = e" and tail: "snd (run_validators (v # vs) n r) = snd (call v n r) # vs"
      by (auto split: prod.splits option.splits)
    have "\<forall>k. 0 < k \<longrightarrow> k < length (v # vs) \<longrightarrow> snd (run_validators (v # vs) n r) ! k = (v # vs) ! k"
      unfolding tail by (auto simp add: nth_Cons split: nat.splits)
    with Some e show ?thesis
      by (intro exI [of _ 0]) simp
  qed
qed

lemma validate_eq:
  "validate f n r = ((out, err), f') \<Longrightarrow>
    err = fst (run_validators (validators f) n r)
    \<and> validators f' = snd (run_validators (validators f) n r)
    \<and> out = (if err = None then VRange r else VNil)"
  by (auto simp add: validate_def split: prod.splits option.splits)

text \<open>
  C8. Let \<^verbatim>\<open>Run\<close> have coerced its argument to the range \<open>r\<close> (a range, a
  pointer to a range, or a string that is not allow-listed and parses to
  \<open>r\<close>). If it returns a nil error, the value is \<open>r\<close> and every validator
  passes on \<open>r\<close>. If it returns the error \<open>e\<close>, the value is nil, and \<open>e\<close>
  is the error of a validator before which, in the order of registration,
  every validator passes, and after which every validator of the filter is
  as it was before the call, so was not called. The value and the error are
  never both present.
\<close>

theorem Run_validator_chain:
  assumes coerced: "paramValue = PRange r \<or> paramValue = PRangePtr r
      \<or> (\<exists>s. paramValue = PString s \<and> strings_Trim s whitespace \<notin> set (allowVals f)
            \<and> ParseInt64Range (strings_Trim s whitespace) (defaultLeftVal f) (defaultRightVal f) = Some r)"
    and run: "Int64RangeFilter_Run ParseInt64Range f paramName paramValue = ((out, err), f')"
  shows "(err = None \<longrightarrow> out = VRange r \<and> (\<forall>v \<in> set (validators f). fst (call v paramName r) = None))
    \<and> (\<forall>e. err = Some e \<longrightarrow> out = VNil
          \<and> (\<exists>i < length (validators f). fst (call (validators f ! i) paramName r) = Some e
                \<and> (\<forall>j < i. fst (call (validators f ! j) paramName r) = None)
                \<and> (\<forall>k. i < k \<longrightarrow> k < length (validators f) \<longrightarrow> validators f' ! k = validators f ! k)))
    \<and> (out = VNil \<or> err = None)
    \<and> length (validators f') = length (validators f)"
proof -
  from coerced run have v: "validate f paramName r = ((out, err), f')"
    by (auto simp add: Int64RangeFilter_Run_def Let_def allowed_iff)
  note eq = validate_eq [OF v]
  have none: "err = None \<longrightarrow> out = VRange r \<and> (\<forall>v \<in> set (validators f). fst (call v paramName r) = None)"
    using eq run_validators_None [of "validators f" paramName r] by simp
  have some: "\<forall>e. err = Some e \<longrightarrow> out = VNil
          \<and> (\<exists>i < length (validators f). fst (call (validators f ! i) paramName r) = Some e
                \<and> (\<forall>j < i. fst (call (validators f ! j) paramName r) = None)
                \<and> (\<forall>k. i < k \<longrightarrow> k < length (validators f) \<longrightarrow> validators f' ! k = validators f ! k))"
  proof (intro allI impI)
    fix e assume e: "err = Some e"
    with eq have "fst (run_validators (validators f) paramName r) = Some e" by simp
    from run_validators_Some [OF this] eq e
    show "out = VNil
          \<and> (\<exists>i < length (validators f). fst (call (validators f ! i) paramName r) = Some e
                \<and> (\<forall>j < i. fst (call (validators f ! j) paramName r) = None)
                \<and> (\<forall>k. i < k \<longrightarrow> k < length (validators f) \<longrightarrow> validators f' ! k = validators f ! k))"
      by simp
  qed
  have both: "out = VNil \<or> err = None" using eq by simp
  have len: "length (validators f') = length (validators f)"
    using eq run_validators_length [of "validators f" paramName r] by simp
  from none some both len show ?thesis by blast
qed


text \<open>
  The filter \<^verbatim>\<open>Int64Range().LeftMin(0).MinDistance(50).RightMax(3)\<close> on the
  range \<open>[1,10]\<close>: the second validator fails with TooNear, which is what
  \<^verbatim>\<open>Run\<close> returns, although the third would fail with RightTooLarge. The
  filter \<^verbatim>\<open>Int64Range().LeftMin(0).MinDistance(5)\<close> passes the same range.
\<close>

theorem Run_validator_chain_witness:
  "Int64RangeFilter_Run (\<lambda>s l r. None)
      (Int64RangeFilter_RightMax 3 (Int64RangeFilter_MinDistance 50 (Int64RangeFilter_LeftMin 0 Int64Range)))
      ''x'' (PRange \<lparr>Left = 1, Right = 10, LeftClosed = True, RightClosed = True\<rparr>)
    = ((VNil, Some (invalid_param ''x'' ''TooNear'')),
       Int64RangeFilter_RightMax 3 (Int64RangeFilter_MinDistance 50 (Int64RangeFilter_LeftMin 0 Int64Range)))
   \<and> fst (call (closure Int64RangeFilter_LeftMin_func 0) ''x''
          \<lparr>Left = 1, Right = 10, LeftClosed = True, RightClosed = True\<rparr>) = None
   \<and> fst (call (closure Int64RangeFilter_MinDistance_func 50) ''x''
          \<lparr>Left = 1, Right = 10, LeftClosed = True, RightClosed = True\<rparr>)
        = Some (invalid_param ''x'' ''TooNear'')
   \<and> fst (call (closure Int64RangeFilter_RightMax_func 3) ''x''
          \<lparr>Left = 1, Right = 10, LeftClosed = True, RightClosed = True\<rparr>)
        = Some (invalid_param ''x'' ''RightTooLarge'')
   \<and> Int64RangeFilter_Run (\<lambda>s l r. None)
      (Int64RangeFilter_MinDistance 5 (Int64RangeFilter_LeftMin 0 Int64Range))
      ''x'' (PRange \<lparr>Left = 1, Right = 10, LeftClosed = True, RightClosed = True\<rparr>)
    = ((VRange \<lparr>Left = 1, Right = 10, LeftClosed = True, RightClosed = True\<rparr>, None),
       Int64RangeFilter_MinDistance 5 (Int64RangeFilter_LeftMin 0 Int64Range))
   \<and> fst (call (closure Int64RangeFilter_MinDistance_func 5) ''x''
          \<lparr>Left = 1, Right = 10, LeftClosed = True, RightClosed = True\<rparr>) = None"
proof -
  let ?r = "\<lparr>Left = 1 :: int64, Right = 10, LeftClosed = True, RightClosed = True\<rparr>"
  let ?f = "Int64RangeFilter_RightMax 3 (Int64RangeFilter_MinDistance 50 (Int64RangeFilter_LeftMin 0 Int64Range))"
  let ?g = "Int64RangeFilter_MinDistance 5 (Int64RangeFilter_LeftMin 0 Int64Range)"
  have nine: "big_Uint64 9 = 9"
    by (simp add: big_Uint64_def)
  have fails: "Int64RangeFilter_Run (\<lambda>s l r. None) ?f ''x'' (PRange ?r)
      = ((VNil, Some (invalid_param ''x'' ''TooNear'')), ?f)"
    by (simp add: Int64RangeFilter_Run_def validate_def Int64RangeFilter_LeftMin_def
        Int64RangeFilter_MinDistance_def Int64RangeFilter_RightMax_def AddValidator_def Int64Range_def
        Int64RangeFilter_LeftMin_func_def Int64RangeFilter_MinDistance_func_def
        big_open_side_eq Int64Range_dist_eq Let_def word_sless_alt nine)
  have passes: "Int64RangeFilter_Run (\<lambda>s l r. None) ?g ''x'' (PRange ?r) = ((VRange ?r, None), ?g)"
    by (simp add: Int64RangeFilter_Run_def validate_def Int64RangeFilter_LeftMin_def
        Int64RangeFilter_MinDistance_def AddValidator_def Int64Range_def
        Int64RangeFilter_LeftMin_func_def Int64RangeFilter_MinDistance_func_def
        big_open_side_eq Int64Range_dist_eq Let_def word_sless_alt nine)
  have vs: "validators ?g = [closure Int64RangeFilter_LeftMin_func 0, closure Int64RangeFilter_MinDistance_func 5]"
    by (simp add: Int64RangeFilter_LeftMin_def Int64RangeFilter_MinDistance_def AddValidator_def Int64Range_def)
  have first: "fst (call (closure Int64RangeFilter_LeftMin_func 0) ''x'' ?r) = None"
    by (simp add: Int64RangeFilter_LeftMin_func_def Let_def word_sless_alt)
  have second: "fst (call (closure Int64RangeFilter_MinDistance_func 50) ''x'' ?r)
      = Some (invalid_param ''x'' ''TooNear'')"
    by (simp add: Int64RangeFilter_MinDistance_func_def big_open_side_eq Int64Range_dist_eq nine)
  have third: "fst (call (closure Int64RangeFilter_RightMax_func 3) ''x'' ?r)
      = Some (invalid_param ''x'' ''RightTooLarge'')"
    by (simp add: Int64RangeFilter_RightMax_func_def Let_def word_sless_alt)
  have coerced: "PRange ?r = PRange ?r \<or> PRange ?r = PRangePtr ?r
      \<or> (\<exists>s. PRange ?r = PString s \<and> strings_Trim s whitespace \<notin> set (allowVals f)
            \<and> (\<lambda>s l r. None) (strings_Trim s whitespace) (defaultLeftVal f) (defaultRightVal f) = Some ?r)"
    for f :: Int64RangeFilter
    by simp
  have all_pass: "\<forall>v \<in> set (validators ?g). fst (call v ''x'' ?r) = None"
    using Run_validator_chain [OF coerced passes] by simp
  then have fourth: "fst (call (closure Int64RangeFilter_MinDistance_func 5) ''x'' ?r) = None"
    by (simp add: vs)
  from Run_validator_chain [OF coerced fails] fails passes first second third fourth show ?thesis
    by simp
qed

end
